theory Spec2Isabelle
  imports Complex_Main
begin

section \<open>Gaussian distribution (tensorforce/core/distributions/gaussian.py)\<close>

text \<open>
  Tensors of floats are modelled by their flat element lists over the reals; the
  elementwise TensorFlow operations of the source become a scalar kernel applied at every
  position. All tensors of one parameter set have the action shape, so positions are
  paired with \<open>zip\<close>. Rounding, infinities and NaN are outside this model.
\<close>

subsection \<open>Specifications and construction\<close>

text \<open>
  A tensor specification: \<open>spec_type\<close> and \<open>spec_shape\<close> are its \<open>type\<close> and \<open>shape\<close>;
  the optional bounds are scalars, applied to every position alike.
\<close>

record tensor_spec =
  spec_type :: string
  spec_shape :: "nat list"
  min_value :: "real option"
  max_value :: "real option"

datatype error =
    TensorforceError_value "string option" string "nat list" string
  | AttributeError string
  | AssertionError
  | IndexError
  | ValueError
  | TypeError

record linear_heads =
  mean_size :: nat
  log_stddev_size :: nat

text \<open>
  \<open>Gaussian.__init__\<close>. The result records the \<open>size\<close> handed to the two linear
  submodules. \<open>util.product\<close> is not part of the sources and is taken as the parameter
  \<open>product\<close> (called with \<open>empty=0\<close>). The attribute \<open>self.embedding_shape\<close>, read on
  the invalid-rank path, is assigned nowhere in this class (the constructor receives
  \<open>input_spec\<close>); it is the parameter \<open>embedding_shape\<close>, \<open>None\<close> when the instance has
  no such attribute, in which case the read raises \<open>AttributeError\<close>.
\<close>

definition Gaussian_init ::
  "(nat list \<Rightarrow> nat \<Rightarrow> nat) \<Rightarrow> nat list option \<Rightarrow> string option \<Rightarrow> tensor_spec \<Rightarrow> nat list
    \<Rightarrow> error + linear_heads" where
  "Gaussian_init product embedding_shape name action_spec input_shape =
    (if spec_type action_spec \<noteq> ''float'' then Inl AssertionError
     else if length input_shape = 1 then
       (let action_size = product (spec_shape action_spec) 0
        in Inr \<lparr>mean_size = action_size, log_stddev_size = action_size\<rparr>)
     else if length input_shape < 1 \<or> length input_shape > 3 then
       (case embedding_shape of
          None \<Rightarrow> Inl (AttributeError ''embedding_shape'')
        | Some v \<Rightarrow> Inl (TensorforceError_value name ''input_spec.shape'' v ''invalid rank''))
     else if butlast input_shape = butlast (spec_shape action_spec) then
       (case spec_shape action_spec of
          [] \<Rightarrow> Inl IndexError
        | _ # _ \<Rightarrow>
            (let size = last (spec_shape action_spec)
             in Inr \<lparr>mean_size = size, log_stddev_size = size\<rparr>))
     else if butlast input_shape = spec_shape action_spec then
       Inr \<lparr>mean_size = 0, log_stddev_size = 0\<rparr>
     else Inl (TensorforceError_value name ''input_spec.shape'' input_shape
                ''not flattened and incompatible with action shape''))"

subsection \<open>Distribution parameters\<close>

record parameters =
  mean :: "real list"
  stddev :: "real list"
  log_stddev :: "real list"

text \<open>\<open>tf.clip_by_value(t, lo, hi)\<close> is \<open>minimum(maximum(t, lo), hi)\<close>.\<close>

definition clip_by_value :: "real \<Rightarrow> real \<Rightarrow> real \<Rightarrow> real" where
  "clip_by_value t clip_value_min clip_value_max = min (max t clip_value_min) clip_value_max"

text \<open>
  \<open>parametrize\<close>. The constant \<open>util.epsilon\<close> is not part of the sources and is the
  parameter \<open>epsilon\<close>; the two linear submodules are the parameters \<open>mean_apply\<close> and
  \<open>log_stddev_apply\<close>. The reshape to the action shape leaves the elements as they are.
\<close>

definition parametrize ::
  "real \<Rightarrow> ('x \<Rightarrow> real list) \<Rightarrow> ('x \<Rightarrow> real list) \<Rightarrow> 'x \<Rightarrow> parameters" where
  "parametrize epsilon mean_apply log_stddev_apply x =
    (let log_epsilon = ln epsilon;
         mean' = mean_apply x;
         log_stddev' = log_stddev_apply x;
         log_stddev' = map (\<lambda>t. clip_by_value t log_epsilon (- log_epsilon)) log_stddev';
         stddev' = map exp log_stddev'
     in \<lparr>mean = mean', stddev = stddev', log_stddev = log_stddev'\<rparr>)"

text \<open>The positions of a parameter set: (mean, stddev, log_stddev) at each index.\<close>

definition rows :: "parameters \<Rightarrow> (real \<times> real \<times> real) list" where
  "rows P = zip (mean P) (zip (stddev P) (log_stddev P))"

text \<open>
  A valid parameter set, as the specification words it: \<open>stddev = exp(log_stddev)\<close>
  elementwise, \<open>log_stddev\<close> within \<open>[ln \<epsilon>, -ln \<epsilon>]\<close>, all three tensors of one shape.
\<close>

definition valid :: "real \<Rightarrow> parameters \<Rightarrow> bool" where
  "valid epsilon P =
    (stddev P = map exp (log_stddev P) \<and>
     list_all (\<lambda>l. ln epsilon \<le> l \<and> l \<le> - ln epsilon) (log_stddev P) \<and>
     length (mean P) = length (log_stddev P))"

subsection \<open>Sampling\<close>

text \<open>
  \<open>sample\<close>. The draw of \<open>tf.random.normal\<close> (of the shape of \<open>mean\<close>) is the parameter
  \<open>normal_distribution\<close>; the summaries are telemetry and leave the result alone.
\<close>

definition sample_elem :: "tensor_spec \<Rightarrow> real \<Rightarrow> real \<times> real \<Rightarrow> real \<Rightarrow> real" where
  "sample_elem action_spec temperature ms z =
    (let action = fst ms + snd ms * temperature * z;
         action = (case min_value action_spec of None \<Rightarrow> action | Some lo \<Rightarrow> max lo action);
         action = (case max_value action_spec of None \<Rightarrow> action | Some hi \<Rightarrow> min hi action)
     in action)"

definition sample :: "tensor_spec \<Rightarrow> parameters \<Rightarrow> real \<Rightarrow> real list \<Rightarrow> real list" where
  "sample action_spec P temperature normal_distribution =
    map2 (sample_elem action_spec temperature) (zip (mean P) (stddev P)) normal_distribution"

text \<open>The bounds clip of \<open>sample\<close> on its own: first the lower bound, then the upper.\<close>

definition clip_bounds :: "tensor_spec \<Rightarrow> real \<Rightarrow> real" where
  "clip_bounds action_spec action =
    (let action = (case min_value action_spec of None \<Rightarrow> action | Some lo \<Rightarrow> max lo action)
     in (case max_value action_spec of None \<Rightarrow> action | Some hi \<Rightarrow> min hi action))"

subsection \<open>Densities and values\<close>

definition log_probability_elem :: "real \<Rightarrow> real \<times> real \<times> real \<Rightarrow> real \<Rightarrow> real" where
  "log_probability_elem epsilon p action =
    (case p of (mean', stddev', log_stddev') \<Rightarrow>
      (let half = 1 / 2; two = 2;
           sq_mean_distance = (action - mean')\<^sup>2;
           sq_stddev = max (stddev'\<^sup>2) epsilon
       in - half * sq_mean_distance / sq_stddev - log_stddev' - half * ln (two * pi)))"

definition log_probability :: "real \<Rightarrow> parameters \<Rightarrow> real list \<Rightarrow> real list" where
  "log_probability epsilon P action = map2 (log_probability_elem epsilon) (rows P) action"

definition entropy :: "parameters \<Rightarrow> real list" where
  "entropy P = map (\<lambda>log_stddev'. log_stddev' + (1 / 2) * ln (2 * pi * exp 1)) (log_stddev P)"

definition kl_divergence_elem ::
  "real \<Rightarrow> real \<times> real \<times> real \<Rightarrow> real \<times> real \<times> real \<Rightarrow> real" where
  "kl_divergence_elem epsilon p1 p2 =
    (case p1 of (mean1, stddev1, log_stddev1) \<Rightarrow>
     case p2 of (mean2, stddev2, log_stddev2) \<Rightarrow>
      (let half = 1 / 2;
           log_stddev_ratio = log_stddev2 - log_stddev1;
           sq_mean_distance = (mean1 - mean2)\<^sup>2;
           sq_stddev1 = stddev1\<^sup>2;
           sq_stddev2 = max (stddev2\<^sup>2) epsilon
       in log_stddev_ratio + half * (sq_stddev1 + sq_mean_distance) / sq_stddev2 - half))"

definition kl_divergence :: "real \<Rightarrow> parameters \<Rightarrow> parameters \<Rightarrow> real list" where
  "kl_divergence epsilon P1 P2 = map2 (kl_divergence_elem epsilon) (rows P1) (rows P2)"

definition states_value :: "parameters \<Rightarrow> real list" where
  "states_value P = map (\<lambda>log_stddev'. - log_stddev' - (1 / 2) * ln (2 * pi)) (log_stddev P)"

definition action_value_elem :: "real \<Rightarrow> real \<times> real \<times> real \<Rightarrow> real \<Rightarrow> real" where
  "action_value_elem epsilon p action =
    (case p of (mean', stddev', log_stddev') \<Rightarrow>
      (let half = 1 / 2; two = 2;
           sq_mean_distance = (action - mean')\<^sup>2;
           sq_stddev = max (stddev'\<^sup>2) epsilon
       in - half * sq_mean_distance / sq_stddev - two * log_stddev' - ln (two * pi)))"

definition action_value :: "real \<Rightarrow> parameters \<Rightarrow> real list \<Rightarrow> real list" where
  "action_value epsilon P action = map2 (action_value_elem epsilon) (rows P) action"

section \<open>Policy-gradient agent (tensorforce/rl_agents/pg_agent.py)\<close>

subsection \<open>The numpy values the agent handles\<close>

text \<open>
  A numpy array is its shape and its elements in row-major order; a Python float and
  \<open>None\<close> are 0-d values, as \<open>np.asarray\<close> reads them. Of numpy only what \<open>get_path\<close>
  and \<open>get_action\<close> call is modelled, with the failures that matter here as \<open>ValueError\<close>
  and \<open>TypeError\<close> results.
\<close>

datatype scalar = PyNone | PyFloat real

record ndarray =
  shape :: "nat list"
  data :: "scalar list"

definition py_None :: ndarray where
  "py_None = \<lparr>shape = [], data = [PyNone]\<rparr>"

text \<open>Sequencing of calls that may raise: the first error ends the computation.\<close>

definition bind :: "error + 'a \<Rightarrow> ('a \<Rightarrow> error + 'b) \<Rightarrow> error + 'b" where
  "bind m f = (case m of Inl e \<Rightarrow> Inl e | Inr x \<Rightarrow> f x)"

text \<open>
  \<open>np.array\<close> of a list of arrays stacks them along a new leading axis. Arrays of
  different shapes are refused with \<open>ValueError\<close> (numpy from 1.24 on; older releases
  build an array of objects of the same leading length in some cases).
\<close>

definition np_array :: "ndarray list \<Rightarrow> error + ndarray" where
  "np_array xs =
    (case xs of
       [] \<Rightarrow> Inr \<lparr>shape = [0], data = []\<rparr>
     | x # _ \<Rightarrow>
         if list_all (\<lambda>y. shape y = shape x) xs
         then Inr \<lparr>shape = length xs # shape x, data = concat (map data xs)\<rparr>
         else Inl ValueError)"

text \<open>\<open>np.expand_dims(a, 0)\<close>: a new axis of length one in front.\<close>

definition np_expand_dims :: "ndarray \<Rightarrow> ndarray" where
  "np_expand_dims a = \<lparr>shape = 1 # shape a, data = data a\<rparr>"

text \<open>
  Reading an array as a sequence, as \<open>np.concatenate\<close> does with an array argument: its
  sub-arrays along the first axis. A 0-d array is no sequence.
\<close>

definition np_iter :: "ndarray \<Rightarrow> error + ndarray list" where
  "np_iter a =
    (case shape a of
       [] \<Rightarrow> Inl TypeError
     | n # s \<Rightarrow>
         Inr (map (\<lambda>i. \<lparr>shape = s, data = take (prod_list s) (drop (i * prod_list s) (data a))\<rparr>)
               [0..<n]))"

text \<open>
  \<open>np.concatenate\<close> along axis 0: it needs at least one array, none of them 0-d, all of
  one shape behind the first axis; the leading lengths add up.
\<close>

definition np_concatenate :: "ndarray list \<Rightarrow> error + ndarray" where
  "np_concatenate xs =
    (case xs of
       [] \<Rightarrow> Inl ValueError
     | x # _ \<Rightarrow>
         if list_ex (\<lambda>y. shape y = []) xs then Inl ValueError
         else if list_all (\<lambda>y. tl (shape y) = tl (shape x)) xs
         then Inr \<lparr>shape = sum_list (map (\<lambda>y. hd (shape y)) xs) # tl (shape x),
                   data = concat (map data xs)\<rparr>
         else Inl ValueError)"

text \<open>
  \<open>np.argmax\<close>: the index of the first maximum of the flattened array; an empty array
  is a \<open>ValueError\<close>, and \<open>None\<close> cannot be compared.
\<close>

definition float_of :: "scalar \<Rightarrow> real option" where
  "float_of v = (case v of PyNone \<Rightarrow> None | PyFloat r \<Rightarrow> Some r)"

definition np_argmax :: "ndarray \<Rightarrow> error + nat" where
  "np_argmax a =
    (case those (map float_of (data a)) of
       None \<Rightarrow> Inl TypeError
     | Some [] \<Rightarrow> Inl ValueError
     | Some (r # rs) \<Rightarrow> Inr (length (takeWhile (\<lambda>v. v < Max (set (r # rs))) (r # rs))))"

text \<open>The leading length \<open>len(a)\<close> of an array; a 0-d value has none.\<close>

definition leading :: "ndarray \<Rightarrow> nat option" where
  "leading a = (case shape a of [] \<Rightarrow> None | n # _ \<Rightarrow> Some n)"

text \<open>
  The lists \<open>np.array\<close> stacks and the lists \<open>np.concatenate\<close> joins without raising.
\<close>

definition stackable :: "ndarray list \<Rightarrow> bool" where
  "stackable xs = (case xs of [] \<Rightarrow> True | x # _ \<Rightarrow> list_all (\<lambda>y. shape y = shape x) xs)"

definition concatenable :: "ndarray list \<Rightarrow> bool" where
  "concatenable xs =
    (case xs of
       [] \<Rightarrow> False
     | x # _ \<Rightarrow> list_all (\<lambda>y. shape y \<noteq> [] \<and> tl (shape y) = tl (shape x)) xs)"

subsection \<open>Episode buffer, path records and the agent\<close>

text \<open>
  The episode buffer and a path record are dictionaries over the same keys: lists of
  per-step values in the buffer, one array per key in a path. The buffer is a
  \<open>defaultdict(list)\<close>, so a key that was never written reads as the empty list; for
  \<open>terminated\<close> this default is \<open>None\<close> below, and \<open>Some b\<close> is the flag once assigned.
\<close>

record 'a trajectory =
  states :: 'a
  actions :: 'a
  rewards :: 'a
  action_means :: 'a
  action_log_stds :: 'a
  terminated :: "bool option"

type_synonym episode = "ndarray list trajectory"
type_synonym path = "ndarray trajectory"

definition empty_episode :: episode where
  "empty_episode =
    \<lparr>states = [], actions = [], rewards = [], action_means = [], action_log_stds = [],
     terminated = None\<rparr>"

text \<open>
  The agent. The updater is an external collaborator: \<open>updater\<close> is \<open>None\<close> as long as
  the class has no \<open>value_function_ref\<close>, and otherwise holds the batches handed to
  \<open>update\<close> so far, oldest first, which is all this development needs of it.
\<close>

record agent =
  updater :: "path list list option"
  current_batch :: "path list"
  current_episode :: episode
  batch_steps :: int
  batch_size :: int
  last_action :: ndarray
  last_action_means :: ndarray
  last_action_log_stds :: ndarray
  continuous :: bool

definition PGAgent_init :: "int \<Rightarrow> bool \<Rightarrow> bool \<Rightarrow> agent" where
  "PGAgent_init config_batch_size config_continuous value_function_ref =
    \<lparr>updater = (if value_function_ref then Some [] else None),
     current_batch = [],
     current_episode = empty_episode,
     batch_steps = 0,
     batch_size = config_batch_size,
     last_action = py_None,
     last_action_means = py_None,
     last_action_log_stds = py_None,
     continuous = config_continuous\<rparr>"

text \<open>
  \<open>get_action\<close>. What \<open>self.updater.get_action\<close> returned (the action and the two
  entries of \<open>outputs\<close>) is the argument \<open>out\<close>; the result is the action handed back
  (an index for a discrete action space) and the agent with its cache refreshed.
\<close>

definition get_action ::
  "agent \<Rightarrow> ndarray \<times> ndarray \<times> ndarray \<Rightarrow> error + ((nat + ndarray) \<times> agent)" where
  "get_action self out =
    (case updater self of
       None \<Rightarrow> Inl (AttributeError ''get_action'')
     | Some _ \<Rightarrow>
        (case out of (action, outputs_action_means, outputs_action_log_stds) \<Rightarrow>
          (let self = self\<lparr>last_action_means := outputs_action_means\<rparr>;
               self = self\<lparr>last_action_log_stds := outputs_action_log_stds\<rparr>;
               self = self\<lparr>last_action := action\<rparr>
           in if \<not> continuous self
              then bind (np_argmax action) (\<lambda>i. Inr (Inl i, self))
              else Inr (Inr action, self))))"

text \<open>\<open>get_path\<close>, the entries evaluated in the order of the dictionary display.\<close>

definition get_path :: "episode \<Rightarrow> error + path" where
  "get_path current_episode' =
    bind (np_array (states current_episode')) (\<lambda>expanded.
    bind (np_iter (np_expand_dims expanded)) (\<lambda>parts.
    bind (np_concatenate parts) (\<lambda>path_states.
    bind (np_array (actions current_episode')) (\<lambda>path_actions.
    bind (np_concatenate (action_means current_episode')) (\<lambda>path_action_means.
    bind (np_concatenate (action_log_stds current_episode')) (\<lambda>path_action_log_stds.
    bind (np_array (rewards current_episode')) (\<lambda>path_rewards.
      Inr \<lparr>states = path_states,
           actions = path_actions,
           rewards = path_rewards,
           action_means = path_action_means,
           action_log_stds = path_action_log_stds,
           terminated = terminated current_episode'\<rparr>)))))))"

text \<open>
  \<open>add_observation\<close>, in the three blocks of the source: the counter and the five appends
  (\<open>append_observation\<close>; the \<open>action\<close> argument is not used, the cached action is
  recorded), the finalisation of the episode under a flag (\<open>finalize\<close>: the assignment to
  \<open>terminated\<close>, \<open>get_path\<close>, the append to the batch), and the hand-over of the batch
  (\<open>update\<close>). \<open>deepcopy\<close> is the identity on values.
\<close>

definition append_observation :: "agent \<Rightarrow> ndarray \<Rightarrow> ndarray \<Rightarrow> agent" where
  "append_observation self state reward =
    (let self = self\<lparr>batch_steps := batch_steps self + 1\<rparr>;
         ep = current_episode self;
         ep = ep\<lparr>states := states ep @ [state]\<rparr>;
         ep = ep\<lparr>actions := actions ep @ [last_action self]\<rparr>;
         ep = ep\<lparr>rewards := rewards ep @ [reward]\<rparr>;
         ep = ep\<lparr>action_means := action_means ep @ [last_action_means self]\<rparr>;
         ep = ep\<lparr>action_log_stds := action_log_stds ep @ [last_action_log_stds self]\<rparr>
     in self\<lparr>current_episode := ep\<rparr>)"

definition finalize :: "agent \<Rightarrow> bool \<Rightarrow> error + agent" where
  "finalize self flag =
    (let self = self\<lparr>current_episode := (current_episode self)\<lparr>terminated := Some flag\<rparr>\<rparr>
     in bind (get_path (current_episode self)) (\<lambda>path.
          Inr (self\<lparr>current_batch := current_batch self @ [path]\<rparr>)))"

definition update :: "agent \<Rightarrow> path list \<Rightarrow> error + agent" where
  "update self batch =
    (case updater self of
       None \<Rightarrow> Inl (AttributeError ''update'')
     | Some received \<Rightarrow> Inr (self\<lparr>updater := Some (received @ [batch])\<rparr>))"

definition add_observation :: "agent \<Rightarrow> ndarray \<Rightarrow> ndarray \<Rightarrow> ndarray \<Rightarrow> bool \<Rightarrow> error + agent" where
  "add_observation self state action reward terminal =
    (let self = append_observation self state reward
     in bind (if terminal
              then bind (finalize self True) (\<lambda>self.
                     Inr (self\<lparr>current_episode := empty_episode\<rparr>))
              else Inr self) (\<lambda>self.
        if batch_steps self = batch_size self
        then bind (if \<not> terminal then finalize self False else Inr self) (\<lambda>self.
             bind (update self (current_batch self)) (\<lambda>self.
               Inr (self\<lparr>current_episode := empty_episode, current_batch := [],
                          batch_steps := 0\<rparr>)))
        else Inr self))"

subsection \<open>Sequences of calls\<close>

text \<open>
  The environment loop drives the agent by \<open>get_action\<close> and \<open>add_observation\<close> calls;
  a sequence of calls runs until the first one raises.
\<close>

datatype call =
    GetAction ndarray ndarray ndarray
  | AddObservation ndarray ndarray ndarray bool

definition step :: "agent \<Rightarrow> call \<Rightarrow> error + agent" where
  "step self c =
    (case c of
       GetAction action outputs_action_means outputs_action_log_stds \<Rightarrow>
         bind (get_action self (action, outputs_action_means, outputs_action_log_stds))
           (\<lambda>r. Inr (snd r))
     | AddObservation state action reward terminal \<Rightarrow>
         add_observation self state action reward terminal)"

fun run :: "agent \<Rightarrow> call list \<Rightarrow> error + agent" where
  "run self [] = Inr self"
| "run self (c # cs) = bind (step self c) (\<lambda>self. run self cs)"

text \<open>
  The number of \<open>add_observation\<close> calls in a sequence, and whether all of them are
  non-terminal.
\<close>

fun observations :: "call list \<Rightarrow> nat" where
  "observations [] = 0"
| "observations (GetAction _ _ _ # cs) = observations cs"
| "observations (AddObservation _ _ _ _ # cs) = Suc (observations cs)"

fun all_nonterminal :: "call list \<Rightarrow> bool" where
  "all_nonterminal [] = True"
| "all_nonterminal (GetAction _ _ _ # cs) = all_nonterminal cs"
| "all_nonterminal (AddObservation _ _ _ terminal # cs) = (\<not> terminal \<and> all_nonterminal cs)"

text \<open>Concrete values for the examples: a float, and a matrix given by its rows.\<close>

definition float_scalar :: "real \<Rightarrow> ndarray" where
  "float_scalar r = \<lparr>shape = [], data = [PyFloat r]\<rparr>"

definition float_rows :: "real list list \<Rightarrow> ndarray" where
  "float_rows rs =
    \<lparr>shape = (case rs of [] \<Rightarrow> [0] | r # _ \<Rightarrow> [length rs, length r]),
     data = map PyFloat (concat rs)\<rparr>"

section \<open>Properties of the Gaussian distribution\<close>

lemma clip_by_value_bounds:
  "lo \<le> hi \<Longrightarrow> lo \<le> clip_by_value t lo hi \<and> clip_by_value t lo hi \<le> hi"
  by (simp add: clip_by_value_def)

text \<open>
  C3. For every embedding input \<open>x\<close> (and whatever the two linear heads compute), the
  parameters returned by \<open>parametrize\<close> satisfy \<open>stddev = exp(log_stddev)\<close> elementwise
  and \<open>ln \<epsilon> \<le> log_stddev \<le> -ln \<epsilon>\<close> elementwise, for the constant \<open>0 < \<epsilon> < 1\<close>; the
  clamp is applied on every call, before \<open>stddev\<close> is computed (so that
  \<open>\<epsilon> \<le> stddev \<le> 1/\<epsilon>\<close>).
\<close>

theorem parametrize_clamped:
  assumes "0 < epsilon" and "epsilon < 1"
  shows "stddev (parametrize epsilon mean_apply log_stddev_apply x)
           = map exp (log_stddev (parametrize epsilon mean_apply log_stddev_apply x))
       \<and> log_stddev (parametrize epsilon mean_apply log_stddev_apply x)
           = map (\<lambda>t. clip_by_value t (ln epsilon) (- ln epsilon)) (log_stddev_apply x)
       \<and> (\<forall>l \<in> set (log_stddev (parametrize epsilon mean_apply log_stddev_apply x)).
             ln epsilon \<le> l \<and> l \<le> - ln epsilon)
       \<and> (\<forall>s \<in> set (stddev (parametrize epsilon mean_apply log_stddev_apply x)).
             epsilon \<le> s \<and> s \<le> 1 / epsilon)"
proof -
  from assms have le: "ln epsilon \<le> - ln epsilon" by simp
  have b: "\<And>t. ln epsilon \<le> clip_by_value t (ln epsilon) (- ln epsilon)
            \<and> clip_by_value t (ln epsilon) (- ln epsilon) \<le> - ln epsilon"
    using clip_by_value_bounds [OF le] by simp
  have e1: "\<And>l. ln epsilon \<le> l \<Longrightarrow> epsilon \<le> exp l"
    using assms(1) by (metis exp_le_cancel_iff exp_ln)
  have e2: "\<And>l. l \<le> - ln epsilon \<Longrightarrow> exp l \<le> 1 / epsilon"
    using assms(1) by (metis exp_le_cancel_iff exp_ln exp_minus inverse_eq_divide)
  show ?thesis
    using b e1 e2 by (auto simp add: parametrize_def Let_def)
qed

theorem parametrize_clamped_witness:
  "(0 :: real) < 1 / 1000000 \<and> (1 :: real) / 1000000 < 1
   \<and> stddev (parametrize (1 / 1000000) (\<lambda>x. [x]) (\<lambda>x. [x - 100, x, x + 100]) (0 :: real))
       = map exp (log_stddev (parametrize (1 / 1000000) (\<lambda>x. [x]) (\<lambda>x. [x - 100, x, x + 100]) 0))
   \<and> list_all (\<lambda>l. ln (1 / 1000000) \<le> l \<and> l \<le> - ln (1 / 1000000))
        (log_stddev (parametrize (1 / 1000000) (\<lambda>x. [x]) (\<lambda>x. [x - 100, x, x + 100]) 0))"
  using parametrize_clamped [of "1 / 1000000" "\<lambda>x. [x]" "\<lambda>x. [x - 100, x, x + 100]" "0 :: real"]
  by (simp add: list_all_iff)

lemma kl_self_elem:
  assumes "0 < epsilon" and "epsilon \<le> s\<^sup>2"
  shows "kl_divergence_elem epsilon (m, s, l) (m, s, l) = 0"
proof -
  from assms have "max (s\<^sup>2) epsilon = s\<^sup>2" and "s\<^sup>2 \<noteq> 0" by auto
  then show ?thesis by (simp add: kl_divergence_elem_def Let_def)
qed

lemma kl_self_elem_general:
  "kl_divergence_elem epsilon (m, s, l) (m, s, l) = (1 / 2) * s\<^sup>2 / max (s\<^sup>2) epsilon - 1 / 2"
  by (simp add: kl_divergence_elem_def Let_def)

text \<open>
  C4, as amended. For every valid parameter set \<open>P\<close> whose variance is not below the
  floor, \<open>\<epsilon> \<le> stddev\<^sup>2\<close> elementwise, \<open>kl_divergence(P, P)\<close> is \<open>0\<close> elementwise. Validity
  alone does not give this: the clamp admits \<open>stddev\<close> down to \<open>\<epsilon>\<close>, the denominator is
  \<open>max(stddev\<^sup>2, \<epsilon>)\<close>, and below the floor the value is \<open>stddev\<^sup>2/(2\<epsilon>) - 1/2\<close>
  (\<open>kl_self_elem_general\<close>).
\<close>

theorem kl_divergence_self_zero:
  assumes "0 < epsilon" and "valid epsilon P" and "list_all (\<lambda>s. epsilon \<le> s\<^sup>2) (stddev P)"
  shows "kl_divergence epsilon P P = map (\<lambda>_. 0) (mean P)"
  using assms
  by (auto simp add: list_eq_iff_nth_eq kl_divergence_def rows_def valid_def list_all_length kl_self_elem)

theorem kl_divergence_self_zero_witness:
  "(0 :: real) < 1 / 1000000
   \<and> valid (1 / 1000000) \<lparr>mean = [3, 4], stddev = [1, 1], log_stddev = [0, 0]\<rparr>
   \<and> list_all (\<lambda>s. 1 / 1000000 \<le> s\<^sup>2) [1, 1 :: real]
   \<and> kl_divergence (1 / 1000000)
        \<lparr>mean = [3, 4], stddev = [1, 1], log_stddev = [0, 0]\<rparr>
        \<lparr>mean = [3, 4], stddev = [1, 1], log_stddev = [0, 0]\<rparr> = [0, 0]"
  using kl_divergence_self_zero [of "1 / 1000000"
      "\<lparr>mean = [3, 4], stddev = [1, 1], log_stddev = [0, 0]\<rparr>"]
  by (simp add: valid_def)

text \<open>
  C4 as stated fails: with \<open>\<epsilon> = 10\<^sup>-\<^sup>6\<close> the parameter set with \<open>log_stddev = ln \<epsilon>\<close> and
  \<open>stddev = \<epsilon>\<close> is valid, and its divergence from itself is \<open>(\<epsilon> - 1)/2\<close>, about \<open>-0.5\<close>.
\<close>

theorem kl_divergence_self_counterexample:
  "valid (1 / 1000000) \<lparr>mean = [0], stddev = [exp (ln (1 / 1000000))], log_stddev = [ln (1 / 1000000)]\<rparr>
   \<and> kl_divergence (1 / 1000000)
        \<lparr>mean = [0], stddev = [exp (ln (1 / 1000000))], log_stddev = [ln (1 / 1000000)]\<rparr>
        \<lparr>mean = [0], stddev = [exp (ln (1 / 1000000))], log_stddev = [ln (1 / 1000000)]\<rparr>
      = [- (999999 / 2000000)]"
  by (simp add: valid_def kl_divergence_def rows_def kl_divergence_elem_def Let_def power2_eq_square)

lemma sample_elem_clip:
  "sample_elem action_spec temperature ms z
     = clip_bounds action_spec (fst ms + snd ms * temperature * z)"
  by (simp add: sample_elem_def clip_bounds_def Let_def)

text \<open>
  C6. For every parameter set, temperature and noise draw, when the action
  specification declares the bounds \<open>lo \<le> hi\<close>, every element of the sampled action lies
  within \<open>[lo, hi]\<close>; the clip acts on \<open>mean + stddev \<sqdot> temperature \<sqdot> noise\<close>, that is,
  after the noise is added.
\<close>

theorem sample_within_bounds:
  assumes "min_value action_spec = Some lo" and "max_value action_spec = Some hi" and "lo \<le> hi"
  shows "(\<forall>a \<in> set (sample action_spec P temperature z). lo \<le> a \<and> a \<le> hi)
       \<and> sample action_spec P temperature z
           = map (\<lambda>a. min hi (max lo a))
               (sample (action_spec\<lparr>min_value := None, max_value := None\<rparr>) P temperature z)"
proof -
  have "\<And>ms x. lo \<le> sample_elem action_spec temperature ms x
            \<and> sample_elem action_spec temperature ms x \<le> hi"
    using assms by (simp add: sample_elem_def Let_def)
  then have "\<forall>a \<in> set (sample action_spec P temperature z). lo \<le> a \<and> a \<le> hi"
    by (auto simp add: sample_def)
  moreover have "sample action_spec P temperature z
           = map (\<lambda>a. min hi (max lo a))
               (sample (action_spec\<lparr>min_value := None, max_value := None\<rparr>) P temperature z)"
    using assms by (simp add: sample_def sample_elem_def Let_def case_prod_beta)
  ultimately show ?thesis by simp
qed

theorem sample_within_bounds_witness:
  "(-1 :: real) \<le> 1
   \<and> sample \<lparr>spec_type = ''float'', spec_shape = [2], min_value = Some (-1), max_value = Some 1\<rparr>
        \<lparr>mean = [0, 3], stddev = [1, 2], log_stddev = [0, ln 2]\<rparr> 1 [5, -1] = [1, 1]
   \<and> list_all (\<lambda>a. -1 \<le> a \<and> a \<le> 1)
        (sample \<lparr>spec_type = ''float'', spec_shape = [2], min_value = Some (-1), max_value = Some 1\<rparr>
          \<lparr>mean = [0, 3], stddev = [1, 2], log_stddev = [0, ln 2]\<rparr> 1 [5, -1])"
  using sample_within_bounds [of
      "\<lparr>spec_type = ''float'', spec_shape = [2], min_value = Some (-1), max_value = Some 1\<rparr>"
      "-1" 1 "\<lparr>mean = [0, 3], stddev = [1, 2], log_stddev = [0, ln 2]\<rparr>" 1 "[5, -1]"]
  by (simp add: list_all_iff sample_def sample_elem_def Let_def)

text \<open>
  C7. For every parameter set (mean and stddev of one shape) and every noise draw of
  that shape, \<open>sample\<close> with temperature \<open>0\<close> returns the mean, clipped to the bounds
  that are declared; the noise has no influence on the result.
\<close>

theorem sample_temperature_zero:
  assumes "length (stddev P) = length (mean P)" and "length z = length (mean P)"
  shows "sample action_spec P 0 z = map (clip_bounds action_spec) (mean P)"
  using assms by (auto simp add: list_eq_iff_nth_eq sample_def sample_elem_clip)

theorem sample_temperature_zero_witness:
  "length (stddev \<lparr>mean = [0, 3], stddev = [1, 2], log_stddev = [0, ln 2]\<rparr>)
     = length (mean \<lparr>mean = [0, 3], stddev = [1, 2], log_stddev = [0, ln 2]\<rparr>)
   \<and> length [5, -1 :: real] = length (mean \<lparr>mean = [0, 3], stddev = [1, 2], log_stddev = [0, ln 2]\<rparr>)
   \<and> sample \<lparr>spec_type = ''float'', spec_shape = [2], min_value = Some (-1), max_value = Some 1\<rparr>
        \<lparr>mean = [0, 3], stddev = [1, 2], log_stddev = [0, ln 2]\<rparr> 0 [5, -1] = [0, 1]"
  using sample_temperature_zero [of "\<lparr>mean = [0, 3], stddev = [1, 2], log_stddev = [0, ln 2]\<rparr>"
      "[5, -1]" "\<lparr>spec_type = ''float'', spec_shape = [2], min_value = Some (-1), max_value = Some 1\<rparr>"]
  by (simp add: clip_bounds_def)

text \<open>
  C5. Constructing the distribution with an embedding shape of invalid rank should raise
  a validation error that identifies the argument, the offending shape and the hint
  \<open>invalid rank\<close>. It does not: on that path the source reads \<open>self.embedding_shape\<close> instead of
  \<open>self.input_spec.shape\<close> (which the second raise passes): for the embedding shape
  \<open>(2, 3, 4, 5)\<close> against the action shape \<open>(3,)\<close> the construction ends in an
  \<open>AttributeError\<close> when the instance has no such attribute, and otherwise the error
  carries whatever that attribute holds, never the \<open>input_spec.shape\<close> it was given.
\<close>

theorem Gaussian_init_invalid_rank_value:
  "Gaussian_init product None name
      \<lparr>spec_type = ''float'', spec_shape = [3], min_value = None, max_value = None\<rparr> [2, 3, 4, 5]
     = Inl (AttributeError ''embedding_shape'')
   \<and> Gaussian_init product (Some e) name
      \<lparr>spec_type = ''float'', spec_shape = [3], min_value = None, max_value = None\<rparr> [2, 3, 4, 5]
     = Inl (TensorforceError_value name ''input_spec.shape'' e ''invalid rank'')"
  by (simp add: Gaussian_init_def)

text \<open>
  The second raise is as documented: an embedding of rank 2 or 3 that matches the action
  shape in neither way raises the validation error with the argument name, the embedding shape
  and the hint; so does the example of the specification. Apart from the failed assertion
  on the action type, these are the only errors of the constructor.
\<close>

lemma Gaussian_init_incompatible:
  assumes "spec_type action_spec = ''float''"
    and "2 \<le> length input_shape" and "length input_shape \<le> 3"
    and "butlast input_shape \<noteq> butlast (spec_shape action_spec)"
    and "butlast input_shape \<noteq> spec_shape action_spec"
  shows "Gaussian_init product embedding_shape name action_spec input_shape
     = Inl (TensorforceError_value name ''input_spec.shape'' input_shape
             ''not flattened and incompatible with action shape'')"
proof -
  from assms(2,3) have "length input_shape \<noteq> 1" and "\<not> (length input_shape < 1 \<or> length input_shape > 3)"
    by auto
  with assms(1,4,5) show ?thesis by (simp add: Gaussian_init_def)
qed

lemma Gaussian_init_example:
  "Gaussian_init product embedding_shape name
      \<lparr>spec_type = ''float'', spec_shape = [3], min_value = None, max_value = None\<rparr> [4, 5]
     = Inl (TensorforceError_value name ''input_spec.shape'' [4, 5]
             ''not flattened and incompatible with action shape'')"
  by (simp add: Gaussian_init_def)

lemma Gaussian_init_errors:
  assumes "Gaussian_init product embedding_shape name action_spec input_shape = Inl err"
    and "spec_type action_spec = ''float''"
  shows "(length input_shape = 0 \<or> 3 < length input_shape) \<and>
           (case embedding_shape of
              None \<Rightarrow> err = AttributeError ''embedding_shape''
            | Some v \<Rightarrow> err = TensorforceError_value name ''input_spec.shape'' v ''invalid rank'')
         \<or> 2 \<le> length input_shape \<and> length input_shape \<le> 3 \<and>
           err = TensorforceError_value name ''input_spec.shape'' input_shape
                   ''not flattened and incompatible with action shape''"
proof -
  consider (flat) "length input_shape = 1"
    | (rank) "length input_shape = 0 \<or> 3 < length input_shape"
    | (per_action) "2 \<le> length input_shape" "length input_shape \<le> 3"
    by linarith
  then show ?thesis
  proof cases
    case flat
    with assms show ?thesis by (simp add: Gaussian_init_def Let_def)
  next
    case rank
    then have "length input_shape \<noteq> 1" and "length input_shape < 1 \<or> length input_shape > 3"
      by auto
    with assms have "(case embedding_shape of
          None \<Rightarrow> Inl (AttributeError ''embedding_shape'')
        | Some v \<Rightarrow> Inl (TensorforceError_value name ''input_spec.shape'' v ''invalid rank''))
        = (Inl err :: error + linear_heads)"
      by (simp add: Gaussian_init_def)
    then have "case embedding_shape of
              None \<Rightarrow> err = AttributeError ''embedding_shape''
            | Some v \<Rightarrow> err = TensorforceError_value name ''input_spec.shape'' v ''invalid rank''"
      by (cases embedding_shape) auto
    with rank show ?thesis by simp
  next
    case per_action
    then have r: "length input_shape \<noteq> 1" "\<not> (length input_shape < 1 \<or> length input_shape > 3)"
      by auto
    from per_action(1) have "butlast input_shape \<noteq> []" by (cases input_shape) auto
    then have ne: "butlast input_shape = butlast (spec_shape action_spec)
        \<Longrightarrow> spec_shape action_spec \<noteq> []"
      by auto
    have "err = TensorforceError_value name ''input_spec.shape'' input_shape
                   ''not flattened and incompatible with action shape''"
    proof (cases "butlast input_shape = butlast (spec_shape action_spec)")
      case True
      with ne obtain d ds where "spec_shape action_spec = d # ds"
        by (cases "spec_shape action_spec") auto
      with assms r True show ?thesis by (simp add: Gaussian_init_def Let_def)
    next
      case False
      with assms r show ?thesis by (simp add: Gaussian_init_def split: if_splits)
    qed
    with per_action show ?thesis by simp
  qed
qed

lemma value_elem_sum:
  "action_value_elem epsilon p a = log_probability_elem epsilon p a + (- snd (snd p) - (1 / 2) * ln (2 * pi))"
  by (cases p) (simp add: action_value_elem_def log_probability_elem_def Let_def)

text \<open>
  C9. For every parameter set \<open>P\<close> and action \<open>a\<close>, \<open>action_value(P, a)\<close> is, position by
  position, \<open>log_probability(P, a)\<close> plus \<open>states_value(P)\<close>.
\<close>

theorem action_value_is_log_probability_plus_states_value:
  "action_value epsilon P a = map2 (+) (log_probability epsilon P a) (states_value P)"
  by (auto simp add: list_eq_iff_nth_eq action_value_def log_probability_def states_value_def
      rows_def value_elem_sum)

section \<open>Properties of the policy-gradient agent\<close>

subsection \<open>Arrays and paths\<close>

lemma bind_Inl [simp]: "bind (Inl e) f = Inl e"
  by (simp add: bind_def)

lemma bind_Inr [simp]: "bind (Inr x) f = f x"
  by (simp add: bind_def)

lemma bind_assoc: "bind (bind m f) g = bind m (\<lambda>x. bind (f x) g)"
  by (cases m) simp_all

lemma bind_eq_Inr: "bind m f = Inr y \<Longrightarrow> \<exists>x. m = Inr x \<and> f x = Inr y"
  by (cases m) simp_all

lemma np_array_leading: "np_array xs = Inr a \<Longrightarrow> leading a = Some (length xs)"
  by (auto simp add: np_array_def leading_def split: list.splits if_splits)

lemma np_array_shape: "np_array xs = Inr a \<Longrightarrow> shape a \<noteq> []"
  by (auto simp add: np_array_def split: list.splits if_splits)

lemma np_concatenate_leading:
  "np_concatenate xs = Inr a \<Longrightarrow> leading a = Some (sum_list (map (\<lambda>y. hd (shape y)) xs))"
  by (auto simp add: np_concatenate_def leading_def split: list.splits if_splits)

lemma unit_batch_axis_sum:
  "list_all (\<lambda>m. leading m = Some 1) xs \<Longrightarrow> sum_list (map (\<lambda>y. hd (shape y)) xs) = length xs"
  by (induction xs) (auto simp add: leading_def split: list.splits)

lemma stacked_states_leading:
  assumes "np_array xs = Inr expanded" and "np_iter (np_expand_dims expanded) = Inr parts"
    and "np_concatenate parts = Inr a"
  shows "leading a = Some (length xs)"
proof -
  from assms(1) obtain s where sh: "shape expanded = length xs # s"
    by (auto simp add: np_array_def split: list.splits if_splits)
  with assms(2) have "map shape parts = [length xs # s]"
    by (auto simp add: np_iter_def np_expand_dims_def)
  then obtain y where "parts = [y]" and "shape y = length xs # s" by auto
  with assms(3) show ?thesis
    by (auto simp add: np_concatenate_def leading_def split: if_splits)
qed

text \<open>
  What \<open>get_path\<close> returns when it returns: the flag of the episode, arrays of leading
  length the number of recorded steps for the stacked fields, and of leading length the
  sum of the leading lengths of the recorded values for the two concatenated fields.
\<close>

lemma get_path_fields:
  assumes "get_path ep = Inr p"
  shows "terminated p = terminated ep"
    and "leading (states p) = Some (length (states ep))"
    and "leading (actions p) = Some (length (actions ep))"
    and "leading (rewards p) = Some (length (rewards ep))"
    and "leading (action_means p) = Some (sum_list (map (\<lambda>y. hd (shape y)) (action_means ep)))"
    and "leading (action_log_stds p)
           = Some (sum_list (map (\<lambda>y. hd (shape y)) (action_log_stds ep)))"
proof -
  from assms obtain e1 e2 ps pa pm pl pr where
      1: "np_array (states ep) = Inr e1" and 2: "np_iter (np_expand_dims e1) = Inr e2"
    and 3: "np_concatenate e2 = Inr ps" and 4: "np_array (actions ep) = Inr pa"
    and 5: "np_concatenate (action_means ep) = Inr pm"
    and 6: "np_concatenate (action_log_stds ep) = Inr pl"
    and 7: "np_array (rewards ep) = Inr pr"
    and p: "p = \<lparr>states = ps, actions = pa, rewards = pr, action_means = pm,
                 action_log_stds = pl, terminated = terminated ep\<rparr>"
    unfolding get_path_def by (auto dest!: bind_eq_Inr)
  show "terminated p = terminated ep" by (simp add: p)
  show "leading (states p) = Some (length (states ep))"
    using stacked_states_leading [OF 1 2 3] by (simp add: p)
  show "leading (actions p) = Some (length (actions ep))"
    using np_array_leading [OF 4] by (simp add: p)
  show "leading (rewards p) = Some (length (rewards ep))"
    using np_array_leading [OF 7] by (simp add: p)
  show "leading (action_means p) = Some (sum_list (map (\<lambda>y. hd (shape y)) (action_means ep)))"
    using np_concatenate_leading [OF 5] by (simp add: p)
  show "leading (action_log_stds p)
           = Some (sum_list (map (\<lambda>y. hd (shape y)) (action_log_stds ep)))"
    using np_concatenate_leading [OF 6] by (simp add: p)
qed

text \<open>
  When \<open>get_path\<close> returns: exactly for an episode whose states, actions and rewards
  stack and whose means and log standard deviations concatenate.
\<close>

lemma np_array_returns: "(\<exists>a. np_array xs = Inr a) = stackable xs"
  by (auto simp add: np_array_def stackable_def split: list.splits)

lemma np_concatenate_returns: "(\<exists>a. np_concatenate xs = Inr a) = concatenable xs"
proof (cases xs)
  case Nil
  then show ?thesis by (simp add: np_concatenate_def concatenable_def)
next
  case (Cons x rest)
  have "list_ex (\<lambda>y. shape y = []) xs = (\<not> list_all (\<lambda>y. shape y \<noteq> []) xs)"
    by (simp add: list_all_iff list_ex_iff)
  moreover have "list_all (\<lambda>y. shape y \<noteq> [] \<and> tl (shape y) = tl (shape x)) xs
      = (list_all (\<lambda>y. shape y \<noteq> []) xs \<and> list_all (\<lambda>y. tl (shape y) = tl (shape x)) xs)"
    by (auto simp add: list_all_iff)
  ultimately show ?thesis
    unfolding np_concatenate_def concatenable_def Cons list.case
    by (simp only: Cons [symmetric] split: if_split) auto
qed

lemma stacked_states_returns:
  assumes "np_array xs = Inr expanded"
  shows "\<exists>parts a. np_iter (np_expand_dims expanded) = Inr parts \<and> np_concatenate parts = Inr a"
proof -
  from assms have "shape expanded \<noteq> []" by (rule np_array_shape)
  then obtain n s where "shape expanded = n # s" by (cases "shape expanded") auto
  then show ?thesis
    by (simp add: np_iter_def np_expand_dims_def np_concatenate_def)
qed

lemma get_path_returns:
  "(\<exists>p. get_path ep = Inr p) =
     (stackable (states ep) \<and> stackable (actions ep) \<and> concatenable (action_means ep)
      \<and> concatenable (action_log_stds ep) \<and> stackable (rewards ep))"
proof
  assume "\<exists>p. get_path ep = Inr p"
  then obtain p where "get_path ep = Inr p" ..
  then obtain e1 pa pm pl pr where "np_array (states ep) = Inr e1"
    and "np_array (actions ep) = Inr pa"
    and "np_concatenate (action_means ep) = Inr pm"
    and "np_concatenate (action_log_stds ep) = Inr pl"
    and "np_array (rewards ep) = Inr pr"
    unfolding get_path_def by (auto dest!: bind_eq_Inr)
  then have "(\<exists>a. np_array (states ep) = Inr a) \<and> (\<exists>a. np_array (actions ep) = Inr a)
      \<and> (\<exists>a. np_concatenate (action_means ep) = Inr a)
      \<and> (\<exists>a. np_concatenate (action_log_stds ep) = Inr a)
      \<and> (\<exists>a. np_array (rewards ep) = Inr a)"
    by simp
  then show "stackable (states ep) \<and> stackable (actions ep) \<and> concatenable (action_means ep)
      \<and> concatenable (action_log_stds ep) \<and> stackable (rewards ep)"
    by (simp add: np_array_returns np_concatenate_returns)
next
  assume "stackable (states ep) \<and> stackable (actions ep) \<and> concatenable (action_means ep)
      \<and> concatenable (action_log_stds ep) \<and> stackable (rewards ep)"
  then obtain e1 pa pm pl pr where 1: "np_array (states ep) = Inr e1"
    and 4: "np_array (actions ep) = Inr pa"
    and 5: "np_concatenate (action_means ep) = Inr pm"
    and 6: "np_concatenate (action_log_stds ep) = Inr pl"
    and 7: "np_array (rewards ep) = Inr pr"
    unfolding np_array_returns [symmetric] np_concatenate_returns [symmetric] by blast
  from stacked_states_returns [OF 1] obtain e2 ps
    where 2: "np_iter (np_expand_dims e1) = Inr e2" and 3: "np_concatenate e2 = Inr ps" by blast
  show "\<exists>p. get_path ep = Inr p"
    by (simp add: get_path_def 1 2 3 4 5 6 7)
qed

subsection \<open>One call of \<open>add_observation\<close>\<close>

lemma append_observation_fields [simp]:
  "batch_steps (append_observation self state reward) = batch_steps self + 1"
  "batch_size (append_observation self state reward) = batch_size self"
  "updater (append_observation self state reward) = updater self"
  "current_batch (append_observation self state reward) = current_batch self"
  "states (current_episode (append_observation self state reward))
     = states (current_episode self) @ [state]"
  "actions (current_episode (append_observation self state reward))
     = actions (current_episode self) @ [last_action self]"
  "rewards (current_episode (append_observation self state reward))
     = rewards (current_episode self) @ [reward]"
  "action_means (current_episode (append_observation self state reward))
     = action_means (current_episode self) @ [last_action_means self]"
  "action_log_stds (current_episode (append_observation self state reward))
     = action_log_stds (current_episode self) @ [last_action_log_stds self]"
  by (simp_all add: append_observation_def Let_def)

lemma add_observation_terminal:
  assumes "get_path ((current_episode (append_observation self state reward))
                        \<lparr>terminated := Some True\<rparr>) = Inr path"
  shows "add_observation self state action reward True =
    (if batch_steps self + 1 = batch_size self
     then bind (update ((append_observation self state reward)
                   \<lparr>current_batch := current_batch self @ [path],
                    current_episode := empty_episode\<rparr>) (current_batch self @ [path]))
            (\<lambda>self. Inr (self\<lparr>current_episode := empty_episode, current_batch := [],
                               batch_steps := 0\<rparr>))
     else Inr ((append_observation self state reward)
                   \<lparr>current_batch := current_batch self @ [path],
                    current_episode := empty_episode\<rparr>))"
  using assms by (simp add: add_observation_def finalize_def Let_def)

lemma add_observation_nonterminal:
  "add_observation self state action reward False =
    (if batch_steps self + 1 = batch_size self
     then bind (get_path ((current_episode (append_observation self state reward))
                        \<lparr>terminated := Some False\<rparr>)) (\<lambda>path.
          bind (update ((append_observation self state reward)
                   \<lparr>current_episode := (current_episode (append_observation self state reward))
                        \<lparr>terminated := Some False\<rparr>,
                    current_batch := current_batch self @ [path]\<rparr>) (current_batch self @ [path]))
            (\<lambda>self. Inr (self\<lparr>current_episode := empty_episode, current_batch := [],
                               batch_steps := 0\<rparr>)))
     else Inr (append_observation self state reward))"
  by (simp add: add_observation_def finalize_def Let_def bind_assoc)

subsection \<open>The step counter\<close>

lemma get_action_fields:
  assumes "get_action self out = Inr (r, self')"
  shows "updater self' = updater self" and "current_batch self' = current_batch self"
    and "current_episode self' = current_episode self" and "batch_steps self' = batch_steps self"
    and "batch_size self' = batch_size self"
  using assms
  by (auto simp add: get_action_def Let_def split: option.splits prod.splits if_splits
      dest!: bind_eq_Inr)

lemma step_get_action_fields:
  assumes "step self (GetAction a m l) = Inr self'"
  shows "updater self' = updater self \<and> current_batch self' = current_batch self
       \<and> current_episode self' = current_episode self \<and> batch_steps self' = batch_steps self
       \<and> batch_size self' = batch_size self"
proof -
  from assms obtain r where "get_action self (a, m, l) = Inr r" and "self' = snd r"
    by (auto simp add: step_def dest!: bind_eq_Inr)
  then have "get_action self (a, m, l) = Inr (fst r, self')" by simp
  from get_action_fields [OF this] show ?thesis by simp
qed

lemma run_get_actions:
  assumes "observations cs = 0" and "run self cs = Inr self'"
  shows "updater self' = updater self \<and> current_batch self' = current_batch self
       \<and> current_episode self' = current_episode self \<and> batch_steps self' = batch_steps self
       \<and> batch_size self' = batch_size self"
  using assms
proof (induction cs arbitrary: self)
  case Nil
  then show ?case by simp
next
  case (Cons c cs)
  from Cons.prems(1) obtain a m l where c: "c = GetAction a m l" and rest: "observations cs = 0"
    by (cases c) simp_all
  from Cons.prems(2) obtain s1 where s1: "step self c = Inr s1" and r: "run s1 cs = Inr self'"
    by (auto dest!: bind_eq_Inr)
  from step_get_action_fields [OF s1 [unfolded c]] Cons.IH [OF rest r] show ?case by simp
qed

lemma add_observation_counter:
  assumes "add_observation self state action reward terminal = Inr self'"
  shows "batch_size self' = batch_size self"
    and "batch_steps self' = (if batch_steps self + 1 = batch_size self then 0 else batch_steps self + 1)"
  using assms
  by (auto simp add: add_observation_def finalize_def update_def Let_def
      split: if_splits option.splits dest!: bind_eq_Inr)

lemma step_invariant:
  assumes "step self c = Inr self'" and "0 \<le> batch_steps self" and "batch_steps self < batch_size self"
  shows "batch_size self' = batch_size self \<and> 0 \<le> batch_steps self' \<and> batch_steps self' < batch_size self'"
proof (cases c)
  case (GetAction a m l)
  with assms step_get_action_fields [of self a m l self'] show ?thesis by simp
next
  case (AddObservation state action reward terminal)
  with assms(1) have "add_observation self state action reward terminal = Inr self'"
    by (simp add: step_def)
  from add_observation_counter [OF this] assms(2,3) show ?thesis by auto
qed

lemma run_invariant:
  assumes "run self cs = Inr self'" and "0 \<le> batch_steps self" and "batch_steps self < batch_size self"
  shows "batch_size self' = batch_size self \<and> 0 \<le> batch_steps self' \<and> batch_steps self' < batch_size self'"
  using assms
proof (induction cs arbitrary: self)
  case Nil
  then show ?case by simp
next
  case (Cons c cs)
  from Cons.prems(1) obtain s1 where s1: "step self c = Inr s1" and r: "run s1 cs = Inr self'"
    by (auto dest!: bind_eq_Inr)
  from step_invariant [OF s1 Cons.prems(2,3)] Cons.IH [OF r] show ?case by simp
qed

text \<open>
  C10. For every agent configured with \<open>batch_size \<ge> 1\<close> and every sequence of calls
  starting from a fresh agent, the step counter satisfies \<open>0 \<le> counter < batch_size\<close>
  after each call that returns; a further \<open>add_observation\<close> call increments it, and
  where the incremented counter equals \<open>batch_size\<close> the flush resets it to \<open>0\<close> before
  the call returns.
\<close>

theorem step_counter_below_batch_size:
  assumes "1 \<le> n" and "run (PGAgent_init n config_continuous value_function_ref) cs = Inr self"
  shows "0 \<le> batch_steps self \<and> batch_steps self < n
       \<and> (\<forall>state action reward terminal self'.
             add_observation self state action reward terminal = Inr self' \<longrightarrow>
               batch_steps self' = (if batch_steps self + 1 = n then 0 else batch_steps self + 1)
               \<and> 0 \<le> batch_steps self' \<and> batch_steps self' < n)"
proof -
  have "batch_steps (PGAgent_init n config_continuous value_function_ref) = 0"
    and "batch_size (PGAgent_init n config_continuous value_function_ref) = n"
    by (simp_all add: PGAgent_init_def)
  with run_invariant [OF assms(2)] assms(1)
  have inv: "batch_size self = n \<and> 0 \<le> batch_steps self \<and> batch_steps self < n" by simp
  then show ?thesis
    by (auto dest: add_observation_counter(2))
qed

subsection \<open>Terminal steps\<close>

lemmas evals = PGAgent_init_def append_observation_def get_path_def np_array_def np_iter_def
  np_expand_dims_def np_concatenate_def empty_episode_def py_None_def float_scalar_def
  float_rows_def finalize_def update_def add_observation_def get_action_def step_def Let_def
  leading_def

text \<open>
  C1. For every call of \<open>add_observation\<close> in which \<open>terminal\<close> is true and the
  incremented step counter equals \<open>batch_size\<close> (the agent having an updater, and the
  finalisation of the episode not raising): the episode is finalised into one path
  record, with \<open>terminated = True\<close>; the batch handed to the update routine, once, is the
  batch buffer with that single path appended; afterwards the episode buffer is empty,
  the batch buffer is empty and the step counter is \<open>0\<close>.
\<close>

theorem terminal_at_batch_size_finalizes_once:
  assumes "batch_steps self + 1 = batch_size self"
    and "updater self = Some received"
    and "get_path ((current_episode (append_observation self state reward))
                      \<lparr>terminated := Some True\<rparr>) = Inr path"
  shows "\<exists>self'. add_observation self state action reward True = Inr self'
       \<and> terminated path = Some True
       \<and> updater self' = Some (received @ [current_batch self @ [path]])
       \<and> current_episode self' = empty_episode
       \<and> current_batch self' = []
       \<and> batch_steps self' = 0"
  using assms get_path_fields(1) [OF assms(3)]
  by (simp add: add_observation_terminal update_def)

theorem terminal_at_batch_size_finalizes_once_witness:
  "\<exists>self'. add_observation
        ((PGAgent_init 1 True True)\<lparr>last_action := float_scalar 1,
            last_action_means := float_rows [[0]], last_action_log_stds := float_rows [[0]]\<rparr>)
        (float_scalar 3) (float_scalar 1) (float_scalar 2) True = Inr self'
     \<and> updater self' =
         Some [[\<lparr>states = \<lparr>shape = [1], data = [PyFloat 3]\<rparr>,
                 actions = \<lparr>shape = [1], data = [PyFloat 1]\<rparr>,
                 rewards = \<lparr>shape = [1], data = [PyFloat 2]\<rparr>,
                 action_means = \<lparr>shape = [1, 1], data = [PyFloat 0]\<rparr>,
                 action_log_stds = \<lparr>shape = [1, 1], data = [PyFloat 0]\<rparr>,
                 terminated = Some True\<rparr>]]
     \<and> current_episode self' = empty_episode \<and> current_batch self' = [] \<and> batch_steps self' = 0"
  using terminal_at_batch_size_finalizes_once [of
      "(PGAgent_init 1 True True)\<lparr>last_action := float_scalar 1,
            last_action_means := float_rows [[0]], last_action_log_stds := float_rows [[0]]\<rparr>"
      "[]" "float_scalar 3" "float_scalar 2"
      "\<lparr>states = \<lparr>shape = [1], data = [PyFloat 3]\<rparr>,
                 actions = \<lparr>shape = [1], data = [PyFloat 1]\<rparr>,
                 rewards = \<lparr>shape = [1], data = [PyFloat 2]\<rparr>,
                 action_means = \<lparr>shape = [1, 1], data = [PyFloat 0]\<rparr>,
                 action_log_stds = \<lparr>shape = [1, 1], data = [PyFloat 0]\<rparr>,
                 terminated = Some True\<rparr>" "float_scalar 1"]
  by (simp add: evals)

text \<open>
  C8, as amended. For every call of \<open>add_observation\<close> with \<open>terminal = True\<close> whose
  incremented step counter is strictly less than \<open>batch_size\<close> (the finalisation not
  raising): the episode is finalised into a path record with \<open>terminated = True\<close>; its
  \<open>states\<close>, \<open>actions\<close> and \<open>rewards\<close> arrays have leading length the number of steps of
  the episode; its \<open>action_means\<close> and \<open>action_log_stds\<close> arrays, being concatenations
  along the existing batch axis, have leading length the sum of the leading lengths of
  the cached values, which is the number of steps where each cached value has a batch
  axis of length one; the path is appended to the batch buffer, the episode buffer is
  reset to empty, the update routine is not invoked and the step counter is not reset.
\<close>

theorem terminal_before_batch_size_finalizes:
  assumes "batch_steps self + 1 < batch_size self"
    and "get_path ((current_episode (append_observation self state reward))
                      \<lparr>terminated := Some True\<rparr>) = Inr path"
  shows "\<exists>self'. add_observation self state action reward True = Inr self'
       \<and> terminated path = Some True
       \<and> leading (states path) = Some (length (states (current_episode self)) + 1)
       \<and> leading (actions path) = Some (length (actions (current_episode self)) + 1)
       \<and> leading (rewards path) = Some (length (rewards (current_episode self)) + 1)
       \<and> leading (action_means path)
           = Some (sum_list (map (\<lambda>m. hd (shape m))
                     (action_means (current_episode self) @ [last_action_means self])))
       \<and> leading (action_log_stds path)
           = Some (sum_list (map (\<lambda>m. hd (shape m))
                     (action_log_stds (current_episode self) @ [last_action_log_stds self])))
       \<and> (list_all (\<lambda>m. leading m = Some 1)
              (action_means (current_episode self) @ [last_action_means self])
            \<longrightarrow> leading (action_means path)
                  = Some (length (action_means (current_episode self)) + 1))
       \<and> (list_all (\<lambda>m. leading m = Some 1)
              (action_log_stds (current_episode self) @ [last_action_log_stds self])
            \<longrightarrow> leading (action_log_stds path)
                  = Some (length (action_log_stds (current_episode self)) + 1))
       \<and> current_batch self' = current_batch self @ [path]
       \<and> current_episode self' = empty_episode
       \<and> updater self' = updater self
       \<and> batch_steps self' = batch_steps self + 1"
proof -
  let ?ep = "(current_episode (append_observation self state reward))\<lparr>terminated := Some True\<rparr>"
  note f = get_path_fields [OF assms(2)]
  have m: "list_all (\<lambda>m. leading m = Some 1)
              (action_means (current_episode self) @ [last_action_means self])
        \<Longrightarrow> leading (action_means path) = Some (length (action_means (current_episode self)) + 1)"
    using f(5) unit_batch_axis_sum
      [of "action_means (current_episode self) @ [last_action_means self]"] by simp
  have l: "list_all (\<lambda>m. leading m = Some 1)
              (action_log_stds (current_episode self) @ [last_action_log_stds self])
        \<Longrightarrow> leading (action_log_stds path)
              = Some (length (action_log_stds (current_episode self)) + 1)"
    using f(6) unit_batch_axis_sum
      [of "action_log_stds (current_episode self) @ [last_action_log_stds self]"] by simp
  from assms(1) have ne: "batch_steps self + 1 \<noteq> batch_size self" by simp
  show ?thesis
    using f m l ne by (simp add: add_observation_terminal [OF assms(2)])
qed

theorem terminal_before_batch_size_finalizes_witness:
  "\<exists>self'. add_observation
        ((PGAgent_init 5 True True)\<lparr>last_action := float_scalar 1,
            last_action_means := float_rows [[0]], last_action_log_stds := float_rows [[0]]\<rparr>)
        (float_scalar 3) (float_scalar 1) (float_scalar 2) True = Inr self'
     \<and> current_batch self' =
         [\<lparr>states = \<lparr>shape = [1], data = [PyFloat 3]\<rparr>,
                 actions = \<lparr>shape = [1], data = [PyFloat 1]\<rparr>,
                 rewards = \<lparr>shape = [1], data = [PyFloat 2]\<rparr>,
                 action_means = \<lparr>shape = [1, 1], data = [PyFloat 0]\<rparr>,
                 action_log_stds = \<lparr>shape = [1, 1], data = [PyFloat 0]\<rparr>,
                 terminated = Some True\<rparr>]
     \<and> current_episode self' = empty_episode \<and> updater self' = Some [] \<and> batch_steps self' = 1"
  using terminal_before_batch_size_finalizes [of
      "(PGAgent_init 5 True True)\<lparr>last_action := float_scalar 1,
            last_action_means := float_rows [[0]], last_action_log_stds := float_rows [[0]]\<rparr>"
      "float_scalar 3" "float_scalar 2"
      "\<lparr>states = \<lparr>shape = [1], data = [PyFloat 3]\<rparr>,
                 actions = \<lparr>shape = [1], data = [PyFloat 1]\<rparr>,
                 rewards = \<lparr>shape = [1], data = [PyFloat 2]\<rparr>,
                 action_means = \<lparr>shape = [1, 1], data = [PyFloat 0]\<rparr>,
                 action_log_stds = \<lparr>shape = [1, 1], data = [PyFloat 0]\<rparr>,
                 terminated = Some True\<rparr>" "float_scalar 1"]
  by (simp add: evals)

text \<open>
  C8 as stated fails: after a \<open>get_action\<close> whose means and log standard deviations
  have a batch axis of length two, a terminal first step of an agent with
  \<open>batch_size = 5\<close> yields a path of one step whose \<open>action_means\<close> and
  \<open>action_log_stds\<close> arrays have leading length two.
\<close>

theorem terminal_path_leading_length_counterexample:
  "\<exists>self' path.
      run (PGAgent_init 5 True True)
        [GetAction (float_scalar 1) (float_rows [[0], [0]]) (float_rows [[0], [0]]),
         AddObservation (float_scalar 3) (float_scalar 1) (float_scalar 2) True] = Inr self'
    \<and> current_batch self' = [path]
    \<and> terminated path = Some True
    \<and> leading (states path) = Some 1
    \<and> leading (action_means path) = Some 2
    \<and> leading (action_log_stds path) = Some 2"
  by (simp add: evals)

subsection \<open>A batch of non-terminal steps\<close>

lemma run_nonterminal:
  assumes "all_nonterminal cs" and "run self cs = Inr self'"
    and "current_batch self = []" and "updater self = Some received"
    and "batch_steps self + int (observations cs) \<le> batch_size self"
  shows "if batch_steps self + int (observations cs) = batch_size self \<and> 0 < observations cs
         then \<exists>path. updater self' = Some (received @ [[path]]) \<and> terminated path = Some False
                \<and> current_episode self' = empty_episode \<and> current_batch self' = []
                \<and> batch_steps self' = 0
         else updater self' = Some received \<and> current_batch self' = []
                \<and> batch_steps self' = batch_steps self + int (observations cs)"
  using assms
proof (induction cs arbitrary: self)
  case Nil
  then show ?case by simp
next
  case (Cons c cs)
  from Cons.prems(2) obtain s1 where s1: "step self c = Inr s1" and r: "run s1 cs = Inr self'"
    by (auto dest!: bind_eq_Inr)
  show ?case
  proof (cases c)
    case (GetAction a m l)
    note f = step_get_action_fields [OF s1 [unfolded GetAction]]
    from Cons.prems(1) GetAction have nt: "all_nonterminal cs" by simp
    from Cons.IH [OF nt r] f Cons.prems(3,4,5) GetAction show ?thesis by simp
  next
    case (AddObservation state action reward terminal)
    with Cons.prems(1) have nt: "all_nonterminal cs" and t: "terminal = False" by simp_all
    from s1 have a: "add_observation self state action reward False = Inr s1"
      by (simp add: step_def AddObservation t)
    show ?thesis
    proof (cases "batch_steps self + 1 = batch_size self")
      case True
      with Cons.prems(5) AddObservation have rest: "observations cs = 0" by simp
      from a True obtain path where
          gp: "get_path ((current_episode (append_observation self state reward))
                            \<lparr>terminated := Some False\<rparr>) = Inr path"
        and s1_eq: "s1 = (append_observation self state reward)
                      \<lparr>current_episode := (current_episode (append_observation self state reward))
                          \<lparr>terminated := Some False\<rparr>,
                       current_batch := current_batch self @ [path],
                       updater := Some (received @ [current_batch self @ [path]]),
                       current_episode := empty_episode, current_batch := [], batch_steps := 0\<rparr>"
        using Cons.prems(4)
        by (auto simp add: add_observation_nonterminal update_def dest!: bind_eq_Inr)
      from get_path_fields(1) [OF gp] have tp: "terminated path = Some False" by simp
      from run_get_actions [OF rest r] s1_eq Cons.prems(3) tp True rest AddObservation
      show ?thesis by auto
    next
      case False
      with a have s1_eq: "s1 = append_observation self state reward"
        by (simp add: add_observation_nonterminal)
      from Cons.prems(5) AddObservation
      have le: "batch_steps s1 + int (observations cs) \<le> batch_size s1"
        by (simp add: s1_eq)
      from Cons.IH [OF nt r _ _ le] Cons.prems(3,4) False AddObservation
      show ?thesis by (auto simp add: s1_eq split: if_splits)
    qed
  qed
qed

text \<open>
  C2. Starting from a fresh agent or just after a flush (empty episode buffer, empty
  batch buffer, counter \<open>0\<close>), with \<open>batch_size \<ge> 1\<close>: a sequence of calls holding exactly
  \<open>batch_size\<close> \<open>add_observation\<close> calls, all with \<open>terminal = False\<close>, that runs without
  raising hands exactly one batch to the update routine; that batch is the single
  force-finalised episode, which carries \<open>terminated = False\<close>; afterwards the episode
  buffer and the batch buffer are empty and the step counter is \<open>0\<close>.
\<close>

theorem batch_size_nonterminal_steps_update_once:
  assumes "current_episode self = empty_episode" and "current_batch self = []"
    and "batch_steps self = 0" and "updater self = Some received"
    and "0 < batch_size self" and "int (observations cs) = batch_size self"
    and "all_nonterminal cs" and "run self cs = Inr self'"
  shows "\<exists>path. updater self' = Some (received @ [[path]])
       \<and> terminated path = Some False
       \<and> current_episode self' = empty_episode
       \<and> current_batch self' = []
       \<and> batch_steps self' = 0"
proof -
  from assms(3,6) have le: "batch_steps self + int (observations cs) \<le> batch_size self" by simp
  from assms(3,5,6) have "batch_steps self + int (observations cs) = batch_size self \<and> 0 < observations cs"
    by auto
  with run_nonterminal [OF assms(7,8,2,4) le] show ?thesis by simp
qed

theorem batch_size_nonterminal_steps_update_once_witness:
  "\<exists>self' path.
      run (PGAgent_init 2 True True)
        [GetAction (float_scalar 1) (float_rows [[0]]) (float_rows [[0]]),
         AddObservation (float_scalar 3) (float_scalar 1) (float_scalar 2) False,
         GetAction (float_scalar 1) (float_rows [[1]]) (float_rows [[0]]),
         AddObservation (float_scalar 4) (float_scalar 1) (float_scalar 2) False] = Inr self'
    \<and> updater self' = Some [[path]] \<and> terminated path = Some False
    \<and> current_episode self' = empty_episode \<and> current_batch self' = [] \<and> batch_steps self' = 0"
proof -
  let ?cs = "[GetAction (float_scalar 1) (float_rows [[0]]) (float_rows [[0]]),
         AddObservation (float_scalar 3) (float_scalar 1) (float_scalar 2) False,
         GetAction (float_scalar 1) (float_rows [[1]]) (float_rows [[0]]),
         AddObservation (float_scalar 4) (float_scalar 1) (float_scalar 2) False]"
  have "\<exists>self'. run (PGAgent_init 2 True True) ?cs = Inr self'"
    by (simp add: evals)
  then obtain self' where r: "run (PGAgent_init 2 True True) ?cs = Inr self'" ..
  have "\<exists>path. updater self' = Some ([] @ [[path]]) \<and> terminated path = Some False
       \<and> current_episode self' = empty_episode \<and> current_batch self' = []
       \<and> batch_steps self' = 0"
    by (rule batch_size_nonterminal_steps_update_once [OF _ _ _ _ _ _ _ r])
      (simp_all add: PGAgent_init_def)
  with r show ?thesis by auto
qed

theorem step_counter_below_batch_size_witness:
  "(1 :: int) \<le> 2 \<and>
   (\<exists>self. run (PGAgent_init 2 True True)
        [GetAction (float_scalar 1) (float_rows [[0]]) (float_rows [[0]]),
         AddObservation (float_scalar 3) (float_scalar 1) (float_scalar 2) False,
         AddObservation (float_scalar 4) (float_scalar 1) (float_scalar 2) False,
         AddObservation (float_scalar 5) (float_scalar 1) (float_scalar 2) True] = Inr self
     \<and> 0 \<le> batch_steps self \<and> batch_steps self < 2)"
proof -
  let ?cs = "[GetAction (float_scalar 1) (float_rows [[0]]) (float_rows [[0]]),
         AddObservation (float_scalar 3) (float_scalar 1) (float_scalar 2) False,
         AddObservation (float_scalar 4) (float_scalar 1) (float_scalar 2) False,
         AddObservation (float_scalar 5) (float_scalar 1) (float_scalar 2) True]"
  have one: "(1 :: int) \<le> 2" by simp
  have "\<exists>self. run (PGAgent_init 2 True True) ?cs = Inr self"
    by (simp add: evals)
  then obtain self where r: "run (PGAgent_init 2 True True) ?cs = Inr self" ..
  from step_counter_below_batch_size [OF one r] r one show ?thesis by blast
qed

end
